theory Spec2Isabelle
  imports Complex_Main
begin

section \<open>Request bodies and schemas (app/schemas.py)\<close>

text \<open>
  A request body reaches the schema classes as the value that Python's JSON reader made
  of it. An object keeps, for a key written twice, the value written last.
\<close>

datatype json =
    JNull
  | JBool bool
  | JInt int
  | JFloat rat
  | JStr string
  | JArr "json list"
  | JObj "(string \<times> json) list"

definition get_field :: "(string \<times> json) list \<Rightarrow> string \<Rightarrow> json option" where
  "get_field kvs k = map_of (rev kvs) k"

text \<open>
  \<^verbatim>\<open>class TaskCreate(BaseModel): title: str; completed: bool = False\<close> and
  \<^verbatim>\<open>class TaskUpdate(BaseModel): title: str; completed: bool\<close> carry the same two
  fields and differ only in what validation asks of the body.
\<close>

record TaskCreate =
  title :: string
  completed :: bool

type_synonym TaskUpdate = TaskCreate

text \<open>
  The conversions of the schema library for a field annotated \<^verbatim>\<open>str\<close> and for one
  annotated \<^verbatim>\<open>bool\<close>, in its default (lax) mode: a string field takes a JSON string
  as it is, with no bound on its length, and nothing else; a boolean field takes a
  boolean, the numbers 0 and 1, and a fixed list of spellings compared without regard
  to ASCII case.
\<close>

fun str_validator :: "json \<Rightarrow> string option" where
  "str_validator (JStr s) = Some s"
| "str_validator _ = None"

definition ascii_lower :: "char \<Rightarrow> char" where
  "ascii_lower c =
     (case map_of (zip ''ABCDEFGHIJKLMNOPQRSTUVWXYZ'' ''abcdefghijklmnopqrstuvwxyz'') c of
        Some l \<Rightarrow> l
      | None \<Rightarrow> c)"

definition str_as_bool :: "string \<Rightarrow> bool option" where
  "str_as_bool s =
     (let l = map ascii_lower s in
      if s = ''0'' \<or> l = ''f'' \<or> l = ''n'' \<or> l = ''no'' \<or> l = ''off'' \<or> l = ''false''
      then Some False
      else if s = ''1'' \<or> l = ''t'' \<or> l = ''y'' \<or> l = ''on'' \<or> l = ''yes'' \<or> l = ''true''
      then Some True
      else None)"

fun bool_validator :: "json \<Rightarrow> bool option" where
  "bool_validator (JBool b) = Some b"
| "bool_validator (JStr s) = str_as_bool s"
| "bool_validator (JInt i) = (if i = 0 then Some False else if i = 1 then Some True else None)"
| "bool_validator (JFloat x) = (if x = 0 then Some False else if x = 1 then Some True else None)"
| "bool_validator _ = None"

section \<open>Responses and errors\<close>

text \<open>
  A handler answers with a value (status 200) or raises. \<open>HTTPException\<close> is the
  exception the handlers raise themselves; \<open>RequestValidationError\<close> is the
  framework's answer 422 to a body that a schema refuses; \<open>InternalServerError\<close> is its
  answer 500 to any other exception that leaves a handler.
\<close>

datatype http_error =
    HTTPException (status_code: nat) (detail: string)
  | RequestValidationError
  | InternalServerError

fun status :: "http_error + 'a \<Rightarrow> nat" where
  "status (Inr _) = 200"
| "status (Inl (HTTPException c _)) = c"
| "status (Inl RequestValidationError) = 422"
| "status (Inl InternalServerError) = 500"

definition TaskCreate_validate :: "json \<Rightarrow> http_error + TaskCreate" where
  "TaskCreate_validate body =
     (case body of
        JObj kvs \<Rightarrow>
          (case get_field kvs ''title'' of
             None \<Rightarrow> Inl RequestValidationError
           | Some v \<Rightarrow>
               (case str_validator v of
                  None \<Rightarrow> Inl RequestValidationError
                | Some t \<Rightarrow>
                    (case get_field kvs ''completed'' of
                       None \<Rightarrow> Inr \<lparr>title = t, completed = False\<rparr>
                     | Some c \<Rightarrow>
                         (case bool_validator c of
                            None \<Rightarrow> Inl RequestValidationError
                          | Some b \<Rightarrow> Inr \<lparr>title = t, completed = b\<rparr>))))
      | _ \<Rightarrow> Inl RequestValidationError)"

definition TaskUpdate_validate :: "json \<Rightarrow> http_error + TaskUpdate" where
  "TaskUpdate_validate body =
     (case body of
        JObj kvs \<Rightarrow>
          (case get_field kvs ''title'' of
             None \<Rightarrow> Inl RequestValidationError
           | Some v \<Rightarrow>
               (case str_validator v of
                  None \<Rightarrow> Inl RequestValidationError
                | Some t \<Rightarrow>
                    (case get_field kvs ''completed'' of
                       None \<Rightarrow> Inl RequestValidationError
                     | Some c \<Rightarrow>
                         (case bool_validator c of
                            None \<Rightarrow> Inl RequestValidationError
                          | Some b \<Rightarrow> Inr \<lparr>title = t, completed = b\<rparr>))))
      | _ \<Rightarrow> Inl RequestValidationError)"

section \<open>The task table and its session\<close>

text \<open>
  Modelled from the spec: the table declaration \<^verbatim>\<open>app.models.Task\<close> is not among the
  sources. The spec gives one table of rows with the columns \<^verbatim>\<open>id\<close> (integer
  primary key, generated by the store), \<^verbatim>\<open>title\<close> and \<^verbatim>\<open>completed\<close>. The same
  three fields make the response schema \<^verbatim>\<open>TaskOut\<close>, which is read off a row
  attribute by attribute.
\<close>

record Task = TaskCreate +
  id_pk :: int

type_synonym TaskOut = Task

text \<open>
  Modelled from the spec: the session factory \<^verbatim>\<open>app.database.SessionLocal\<close> is not
  among the sources. A session is the list of rows in storage order; every handler
  commits before it returns, so the session a handler leaves is the stored table.
  The primary key asks that no two rows share an id, and that the id which the store
  generates for an inserted row is not the id of a row already there; the store's way of
  choosing it is its own, so the generated id is an argument of the insertion. Ids are
  Python integers, as the handlers receive them; the range of the column is the store's.
\<close>

type_synonym Session = "Task list"

definition pk_ok :: "Session \<Rightarrow> bool" where
  "pk_ok db = distinct (map id_pk db)"

definition ids :: "Session \<Rightarrow> int set" where
  "ids db = set (map id_pk db)"

text \<open>\<^verbatim>\<open>select(Task).filter(Task.id == task_id)\<close>\<close>

definition select_by_id :: "int \<Rightarrow> Session \<Rightarrow> Task list" where
  "select_by_id task_id db = filter (\<lambda>r. id_pk r = task_id) db"

text \<open>
  \<^verbatim>\<open>scalar_one_or_none()\<close>: no row gives None, one row gives the row, and more than
  one row raises, which the framework answers with 500.
\<close>

fun scalar_one_or_none :: "'a list \<Rightarrow> http_error + 'a option" where
  "scalar_one_or_none [] = Inr None"
| "scalar_one_or_none [x] = Inr (Some x)"
| "scalar_one_or_none _ = Inl InternalServerError"

text \<open>\<^verbatim>\<open>db.add(row); commit\<close>, \<^verbatim>\<open>commit\<close> of a changed row, \<^verbatim>\<open>db.delete(row); commit\<close>\<close>

definition insert_row :: "Task \<Rightarrow> Session \<Rightarrow> Session" where
  "insert_row row db = db @ [row]"

definition update_row :: "Task \<Rightarrow> Session \<Rightarrow> Session" where
  "update_row row db = map (\<lambda>r. if id_pk r = id_pk row then row else r) db"

definition delete_row :: "Task \<Rightarrow> Session \<Rightarrow> Session" where
  "delete_row row db = filter (\<lambda>r. id_pk r \<noteq> id_pk row) db"

text \<open>\<^verbatim>\<open>db.refresh(row)\<close> reads the row again by its primary key and raises if it is not there.\<close>

definition refresh :: "Task \<Rightarrow> Session \<Rightarrow> http_error + Task" where
  "refresh row db =
     (case select_by_id (id_pk row) db of [r] \<Rightarrow> Inr r | _ \<Rightarrow> Inl InternalServerError)"

section \<open>The handlers (app/main.py)\<close>

definition create_task :: "TaskCreate \<Rightarrow> int \<Rightarrow> Session \<Rightarrow> (http_error + TaskOut) \<times> Session" where
  "create_task task new_id db =
     (let db_task = \<lparr>title = title task, completed = completed task, id_pk = new_id\<rparr>;
          db' = insert_row db_task db
      in (refresh db_task db', db'))"

definition read_tasks :: "Session \<Rightarrow> http_error + TaskOut list" where
  "read_tasks db = Inr db"

definition read_task :: "int \<Rightarrow> Session \<Rightarrow> http_error + TaskOut" where
  "read_task task_id db =
     (case scalar_one_or_none (select_by_id task_id db) of
        Inl e \<Rightarrow> Inl e
      | Inr None \<Rightarrow> Inl (HTTPException 404 ''Task not found'')
      | Inr (Some task) \<Rightarrow> Inr task)"

definition update_task :: "int \<Rightarrow> TaskUpdate \<Rightarrow> Session \<Rightarrow> (http_error + TaskOut) \<times> Session" where
  "update_task task_id task db =
     (case scalar_one_or_none (select_by_id task_id db) of
        Inl e \<Rightarrow> (Inl e, db)
      | Inr None \<Rightarrow> (Inl (HTTPException 404 ''Task not found''), db)
      | Inr (Some db_task) \<Rightarrow>
          (let db_task' = db_task\<lparr>title := title task, completed := completed task\<rparr>;
               db' = update_row db_task' db
           in (refresh db_task' db', db')))"

definition delete_task :: "int \<Rightarrow> Session \<Rightarrow> (http_error + TaskOut) \<times> Session" where
  "delete_task task_id db =
     (case scalar_one_or_none (select_by_id task_id db) of
        Inl e \<Rightarrow> (Inl e, db)
      | Inr None \<Rightarrow> (Inl (HTTPException 404 ''Task not found''), db)
      | Inr (Some db_task) \<Rightarrow> (Inr db_task, delete_row db_task db))"

text \<open>
  The suggestion handler. The chat client is the external service: called with the
  model name and the messages, it returns a response or raises, and \<open>Inl\<close> carries
  \<^verbatim>\<open>str(e)\<close> of what it raised. The response is the decoded reply of the service,
  which the handler reads by subscripting, \<^verbatim>\<open>response["message"]["content"]\<close>, inside
  its \<^verbatim>\<open>try\<close>. Subscripting a mapping by a key it lacks raises \<^verbatim>\<open>KeyError\<close>, whose
  description is the key in quotes (for a key of plain letters, as both keys here are);
  subscripting any other value by a string raises \<^verbatim>\<open>TypeError\<close>, with the wording
  of CPython 3.11.
\<close>

type_synonym chat_client = "string \<Rightarrow> (string \<times> string) list list \<Rightarrow> string + json"

definition quoted :: "string \<Rightarrow> string" where
  "quoted s = [CHR 0x27] @ s @ [CHR 0x27]"

definition not_subscriptable :: "string \<Rightarrow> string" where
  "not_subscriptable type_name = quoted type_name @ '' object is not subscriptable''"

fun getitem :: "json \<Rightarrow> string \<Rightarrow> string + json" where
  "getitem (JObj kvs) k = (case get_field kvs k of Some v \<Rightarrow> Inr v | None \<Rightarrow> Inl (quoted k))"
| "getitem (JStr s) k = Inl (''string indices must be integers, not '' @ quoted ''str'')"
| "getitem (JArr xs) k = Inl ''list indices must be integers or slices, not str''"
| "getitem JNull k = Inl (not_subscriptable ''NoneType'')"
| "getitem (JBool b) k = Inl (not_subscriptable ''bool'')"
| "getitem (JInt i) k = Inl (not_subscriptable ''int'')"
| "getitem (JFloat x) k = Inl (not_subscriptable ''float'')"

text \<open>The external service when it cannot be reached: every call raises.\<close>

definition unreachable :: chat_client where
  "unreachable model_name messages = Inl ''Connection refused''"

text \<open>A service whose reply carries a message without the key \<^verbatim>\<open>content\<close>.\<close>

definition reply_without_content :: chat_client where
  "reply_without_content model_name messages =
     Inr (JObj [(''message'', JObj [(''role'', JStr ''assistant'')])])"

definition prompt_of :: "string \<Rightarrow> string" where
  "prompt_of t =
     ''Just answer only steps for this task short: '' @ [CHR 0x27] @ t @ [CHR 0x27] @ ''?''"

definition suggest_task_completion :: "chat_client \<Rightarrow> string \<Rightarrow> http_error + json" where
  "suggest_task_completion chat t =
     (case chat ''gemma3:4b-it-qat'' [[(''role'', ''user''), (''content'', prompt_of t)]] of
        Inl e \<Rightarrow> Inl (HTTPException 500 (''Ollama error: '' @ e))
      | Inr response \<Rightarrow>
          (case getitem response ''message'' of
             Inl e \<Rightarrow> Inl (HTTPException 500 (''Ollama error: '' @ e))
           | Inr message \<Rightarrow>
               (case getitem message ''content'' of
                  Inl e \<Rightarrow> Inl (HTTPException 500 (''Ollama error: '' @ e))
                | Inr content \<Rightarrow> Inr content)))"

section \<open>The routes\<close>

text \<open>
  The application as one step on the stored table: the framework validates the body
  against the handler's schema before the handler runs, and hands the session only to
  the handlers that declare it.
\<close>

datatype request =
    POST_tasks json
  | GET_tasks
  | GET_task int
  | PUT_task int json
  | DELETE_task int
  | POST_suggestions string

datatype response = OneTask TaskOut | TaskList "TaskOut list" | Suggestion json

definition app :: "chat_client \<Rightarrow> int \<Rightarrow> request \<Rightarrow> Session \<Rightarrow> (http_error + response) \<times> Session" where
  "app chat new_id req db =
     (case req of
        POST_tasks body \<Rightarrow>
          (case TaskCreate_validate body of
             Inl e \<Rightarrow> (Inl e, db)
           | Inr task \<Rightarrow> apfst (map_sum (\<lambda>e. e) OneTask) (create_task task new_id db))
      | GET_tasks \<Rightarrow> (map_sum (\<lambda>e. e) TaskList (read_tasks db), db)
      | GET_task task_id \<Rightarrow> (map_sum (\<lambda>e. e) OneTask (read_task task_id db), db)
      | PUT_task task_id body \<Rightarrow>
          (case TaskUpdate_validate body of
             Inl e \<Rightarrow> (Inl e, db)
           | Inr task \<Rightarrow> apfst (map_sum (\<lambda>e. e) OneTask) (update_task task_id task db))
      | DELETE_task task_id \<Rightarrow> apfst (map_sum (\<lambda>e. e) OneTask) (delete_task task_id db)
      | POST_suggestions t \<Rightarrow> (map_sum (\<lambda>e. e) Suggestion (suggest_task_completion chat t), db))"

text \<open>A run of creations, each with the id the store generated for it.\<close>

fun create_all :: "(TaskCreate \<times> int) list \<Rightarrow> Session \<Rightarrow> Session" where
  "create_all [] db = db"
| "create_all ((task, new_id) # reqs) db = create_all reqs (snd (create_task task new_id db))"

section \<open>Facts about the schemas\<close>

lemma bool_validator_spellings:
  "bool_validator (JStr ''Yes'') = Some True \<and> bool_validator (JStr ''off'') = Some False
   \<and> bool_validator (JStr ''maybe'') = None \<and> bool_validator (JInt 2) = None
   \<and> bool_validator (JFloat 1) = Some True \<and> bool_validator JNull = None"
  by (simp add: str_as_bool_def ascii_lower_def)

lemma TaskCreate_title_required:
  "TaskCreate_validate (JObj [(''completed'', JBool True)]) = Inl RequestValidationError
   \<and> TaskCreate_validate (JObj [(''title'', JNull)]) = Inl RequestValidationError
   \<and> TaskCreate_validate (JArr []) = Inl RequestValidationError"
  by (simp add: TaskCreate_validate_def get_field_def)

lemma TaskUpdate_completed_required:
  "TaskUpdate_validate (JObj [(''title'', JStr ''x'')]) = Inl RequestValidationError"
  by (simp add: TaskUpdate_validate_def get_field_def)

lemma get_field_last_wins:
  "get_field [(''title'', JStr ''a''), (''title'', JStr ''b'')] ''title'' = Some (JStr ''b'')"
  by (simp add: get_field_def)

section \<open>Facts about the table\<close>

lemma select_by_id_absent: "task_id \<notin> ids db \<Longrightarrow> select_by_id task_id db = []"
  by (induction db) (auto simp: select_by_id_def ids_def)

lemma select_by_id_present:
  "pk_ok db \<Longrightarrow> row \<in> set db \<Longrightarrow> select_by_id (id_pk row) db = [row]"
proof (induction db)
  case Nil
  then show ?case by simp
next
  case (Cons r db)
  show ?case
  proof (cases "r = row")
    case True
    from Cons.prems(1) have "id_pk row \<notin> ids db"
      using True by (simp add: pk_ok_def ids_def)
    then have "select_by_id (id_pk row) db = []"
      by (rule select_by_id_absent)
    with True show ?thesis by (simp add: select_by_id_def)
  next
    case False
    with Cons.prems have mem: "row \<in> set db" and ok: "pk_ok db"
      by (auto simp: pk_ok_def)
    from mem Cons.prems(1) have "id_pk r \<noteq> id_pk row"
      by (auto simp: pk_ok_def)
    with Cons.IH [OF ok mem] show ?thesis by (simp add: select_by_id_def)
  qed
qed

lemma select_by_id_id: "select_by_id task_id db = r # rs \<Longrightarrow> id_pk r = task_id"
  by (metis (mono_tags, lifting) filter_eq_ConsD select_by_id_def)

lemma refresh_Inr: "refresh row db = Inr r \<Longrightarrow> select_by_id (id_pk row) db = [r]"
  by (auto simp: refresh_def split: list.splits)

lemma read_task_single: "select_by_id task_id db = [r] \<Longrightarrow> read_task task_id db = Inr r"
  by (simp add: read_task_def)

lemma create_task_Inr:
  "create_task task new_id db = (Inr t, db') \<Longrightarrow> select_by_id new_id db' = [t]"
  by (auto simp: create_task_def Let_def dest: refresh_Inr)

lemma select_by_id_append:
  "select_by_id i (db @ db2) = select_by_id i db @ select_by_id i db2"
  by (simp add: select_by_id_def)

lemma scalar_one_or_none_Some:
  "scalar_one_or_none xs = Inr (Some x) \<Longrightarrow> xs = [x]"
  by (cases xs rule: scalar_one_or_none.cases) auto

lemma select_by_id_update_row:
  "id_pk row' = task_id \<Longrightarrow>
     select_by_id task_id (update_row row' db) = map (\<lambda>r. row') (select_by_id task_id db)"
  by (induction db) (auto simp: select_by_id_def update_row_def)

lemma select_by_id_update_row_other:
  "id_pk row' \<noteq> j \<Longrightarrow> select_by_id j (update_row row' db) = select_by_id j db"
  by (induction db) (auto simp: select_by_id_def update_row_def)

lemma select_by_id_delete_row:
  "select_by_id (id_pk row) (delete_row row db) = []"
  by (induction db) (auto simp: select_by_id_def delete_row_def)

lemma select_by_id_delete_row_other:
  "id_pk row \<noteq> j \<Longrightarrow> select_by_id j (delete_row row db) = select_by_id j db"
  by (induction db) (auto simp: select_by_id_def delete_row_def)

lemma ids_delete_row: "ids (delete_row row db) = ids db - {id_pk row}"
  by (auto simp: ids_def delete_row_def)

lemma ids_update_row: "ids (update_row row db) = ids db"
  by (induction db) (auto simp: ids_def update_row_def)

lemma map_id_pk_update_row: "map id_pk (update_row row db) = map id_pk db"
  by (induction db) (auto simp: update_row_def)

lemma pk_ok_insert_row: "pk_ok db \<Longrightarrow> id_pk row \<notin> ids db \<Longrightarrow> pk_ok (insert_row row db)"
  by (simp add: pk_ok_def ids_def insert_row_def)

lemma pk_ok_update_row: "pk_ok db \<Longrightarrow> pk_ok (update_row row db)"
  by (simp add: pk_ok_def map_id_pk_update_row)

lemma pk_ok_delete_row: "pk_ok db \<Longrightarrow> pk_ok (delete_row row db)"
  by (simp add: pk_ok_def delete_row_def distinct_map_filter)

lemma length_delete_row:
  assumes "pk_ok db" "row \<in> set db"
  shows "length (delete_row row db) = length db - 1"
proof -
  from assms have "select_by_id (id_pk row) db = [row]" by (rule select_by_id_present)
  then have "length (filter (\<lambda>r. id_pk r = id_pk row) db) = 1"
    by (simp add: select_by_id_def)
  moreover have "length (filter (\<lambda>r. id_pk r = id_pk row) db)
       + length (filter (\<lambda>r. \<not> id_pk r = id_pk row) db) = length db"
    by (rule sum_length_filter_compl)
  ultimately show ?thesis by (simp add: delete_row_def)
qed

lemma filter_other_update_row:
  "id_pk row = task_id \<Longrightarrow>
     filter (\<lambda>r. id_pk r \<noteq> task_id) (update_row row db) = filter (\<lambda>r. id_pk r \<noteq> task_id) db"
  by (induction db) (auto simp: update_row_def)

lemma filter_other_delete_row:
  "id_pk row = task_id \<Longrightarrow>
     filter (\<lambda>r. id_pk r \<noteq> task_id) (delete_row row db) = filter (\<lambda>r. id_pk r \<noteq> task_id) db"
  by (induction db) (auto simp: delete_row_def)

section \<open>Facts about the handlers\<close>

lemma create_task_ok:
  assumes "new_id \<notin> ids db"
  shows "create_task task new_id db =
           (Inr \<lparr>title = title task, completed = completed task, id_pk = new_id\<rparr>,
            db @ [\<lparr>title = title task, completed = completed task, id_pk = new_id\<rparr>])"
proof -
  from assms have "select_by_id new_id db = []" by (rule select_by_id_absent)
  then show ?thesis
    by (simp add: create_task_def insert_row_def refresh_def select_by_id_append Let_def)
       (simp add: select_by_id_def)
qed

lemma snd_create_task:
  "snd (create_task task new_id db) =
     db @ [\<lparr>title = title task, completed = completed task, id_pk = new_id\<rparr>]"
  by (simp add: create_task_def insert_row_def Let_def)

lemma create_task_result:
  assumes "create_task task new_id db = (Inr t, db')"
  shows "t = \<lparr>title = title task, completed = completed task, id_pk = new_id\<rparr>
       \<and> db' = db @ [t] \<and> new_id \<notin> ids db"
proof -
  let ?row = "\<lparr>title = title task, completed = completed task, id_pk = new_id\<rparr>"
  from assms have d: "db' = db @ [?row]"
    by (auto simp: create_task_def insert_row_def Let_def)
  from assms have "select_by_id new_id db' = [t]" by (rule create_task_Inr)
  with d have e: "select_by_id new_id db @ [?row] = [t]"
    by (simp add: select_by_id_append) (simp add: select_by_id_def)
  then have r: "?row = t" and n: "select_by_id new_id db = []"
    by (cases "select_by_id new_id db"; simp)+
  from n have "new_id \<notin> ids db"
    by (auto simp: select_by_id_def ids_def filter_empty_conv)
  with r d show ?thesis by simp
qed

lemma create_all_eq:
  "map id_pk (create_all reqs db) = map id_pk db @ map snd reqs"
  by (induction reqs db rule: create_all.induct) (simp_all add: snd_create_task)

lemma read_task_absent:
  "task_id \<notin> ids db \<Longrightarrow> read_task task_id db = Inl (HTTPException 404 ''Task not found'')"
  by (simp add: read_task_def select_by_id_absent)

lemma update_task_absent:
  "task_id \<notin> ids db \<Longrightarrow>
     update_task task_id task db = (Inl (HTTPException 404 ''Task not found''), db)"
  by (simp add: update_task_def select_by_id_absent)

lemma delete_task_absent:
  "task_id \<notin> ids db \<Longrightarrow>
     delete_task task_id db = (Inl (HTTPException 404 ''Task not found''), db)"
  by (simp add: delete_task_def select_by_id_absent)

lemma delete_task_present:
  "pk_ok db \<Longrightarrow> row \<in> set db \<Longrightarrow> delete_task (id_pk row) db = (Inr row, delete_row row db)"
  by (simp add: delete_task_def select_by_id_present)

lemma update_task_present:
  assumes "pk_ok db" "row \<in> set db"
  shows "update_task (id_pk row) task db =
           (Inr (row\<lparr>title := title task, completed := completed task\<rparr>),
            update_row (row\<lparr>title := title task, completed := completed task\<rparr>) db)"
proof -
  from assms have s: "select_by_id (id_pk row) db = [row]" by (rule select_by_id_present)
  have "select_by_id (id_pk row)
          (update_row (row\<lparr>title := title task, completed := completed task\<rparr>) db)
        = [row\<lparr>title := title task, completed := completed task\<rparr>]"
    by (simp add: select_by_id_update_row s)
  with s show ?thesis by (simp add: update_task_def refresh_def Let_def)
qed

lemma update_task_result:
  assumes "update_task task_id task db = (Inr t, db')"
  shows "\<exists>row. select_by_id task_id db = [row]
           \<and> t = row\<lparr>title := title task, completed := completed task\<rparr>
           \<and> db' = update_row t db \<and> select_by_id task_id db' = [t]"
proof (cases "scalar_one_or_none (select_by_id task_id db)")
  case (Inl e)
  with assms show ?thesis by (simp add: update_task_def)
next
  case (Inr found)
  show ?thesis
  proof (cases found)
    case None
    with Inr assms show ?thesis by (simp add: update_task_def)
  next
    case (Some db_task)
    let ?row' = "db_task\<lparr>title := title task, completed := completed task\<rparr>"
    from Inr Some have s: "select_by_id task_id db = [db_task]"
      by (simp add: scalar_one_or_none_Some)
    then have i: "id_pk ?row' = task_id" using select_by_id_id [of task_id db db_task "[]"]
      by simp
    then have s': "select_by_id task_id (update_row ?row' db) = [?row']"
      by (simp add: select_by_id_update_row s)
    from Inr Some assms have d: "db' = update_row ?row' db"
      and r: "refresh ?row' (update_row ?row' db) = Inr t"
      by (auto simp: update_task_def Let_def)
    from r have "select_by_id (id_pk ?row') (update_row ?row' db) = [t]"
      by (rule refresh_Inr)
    with i s' have "t = ?row'" by simp
    with s s' d show ?thesis by simp
  qed
qed

lemma snd_update_task:
  "snd (update_task task_id task db) = db \<or>
   (\<exists>row. id_pk row = task_id \<and> snd (update_task task_id task db) = update_row row db)"
proof (cases "scalar_one_or_none (select_by_id task_id db)")
  case (Inl e)
  then show ?thesis by (simp add: update_task_def)
next
  case (Inr found)
  show ?thesis
  proof (cases found)
    case None
    with Inr show ?thesis by (simp add: update_task_def)
  next
    case (Some db_task)
    with Inr have "select_by_id task_id db = [db_task]"
      by (simp add: scalar_one_or_none_Some)
    then have "id_pk db_task = task_id" by (rule select_by_id_id)
    then have "id_pk (db_task\<lparr>title := title task, completed := completed task\<rparr>) = task_id"
      by simp
    moreover from Inr Some have "snd (update_task task_id task db)
        = update_row (db_task\<lparr>title := title task, completed := completed task\<rparr>) db"
      by (simp add: update_task_def Let_def)
    ultimately show ?thesis by blast
  qed
qed

lemma snd_delete_task:
  "snd (delete_task task_id db) = db \<or>
   (\<exists>row. id_pk row = task_id \<and> snd (delete_task task_id db) = delete_row row db)"
proof (cases "scalar_one_or_none (select_by_id task_id db)")
  case (Inl e)
  then show ?thesis by (simp add: delete_task_def)
next
  case (Inr found)
  show ?thesis
  proof (cases found)
    case None
    with Inr show ?thesis by (simp add: delete_task_def)
  next
    case (Some db_task)
    with Inr have "select_by_id task_id db = [db_task]"
      by (simp add: scalar_one_or_none_Some)
    then have "id_pk db_task = task_id" by (rule select_by_id_id)
    with Inr Some show ?thesis by (auto simp: delete_task_def)
  qed
qed

lemma update_task_one_row:
  "snd (update_task task_id task db) = db \<or> length (select_by_id task_id db) = 1"
  by (cases "select_by_id task_id db" rule: scalar_one_or_none.cases)
     (simp_all add: update_task_def)

lemma delete_task_one_row:
  "snd (delete_task task_id db) = db \<or> length (select_by_id task_id db) = 1"
  by (cases "select_by_id task_id db" rule: scalar_one_or_none.cases)
     (simp_all add: delete_task_def)

section \<open>Facts about the suggestion handler\<close>

lemma suggest_task_completion_reply:
  "chat ''gemma3:4b-it-qat'' [[(''role'', ''user''), (''content'', prompt_of t)]]
     = Inr (JObj [(''message'', JObj [(''role'', JStr ''assistant''), (''content'', c)])])
   \<Longrightarrow> suggest_task_completion chat t = Inr c"
  by (simp add: suggest_task_completion_def get_field_def)

lemma suggest_task_completion_error:
  "suggest_task_completion chat t = Inl err \<Longrightarrow>
     \<exists>e. err = HTTPException 500 (''Ollama error: '' @ e)"
  by (auto simp: suggest_task_completion_def split: sum.splits)

lemma reply_without_content_500:
  "suggest_task_completion reply_without_content t
     = Inl (HTTPException 500 (''Ollama error: '' @ quoted ''content''))"
  by (simp add: suggest_task_completion_def reply_without_content_def get_field_def)

section \<open>Facts about the routes\<close>

lemma map_sum_eq_Inr: "map_sum f g x = Inr y \<longleftrightarrow> (\<exists>z. x = Inr z \<and> y = g z)"
  by (cases x) auto

lemma map_sum_eq_Inl: "map_sum f g x = Inl y \<longleftrightarrow> (\<exists>z. x = Inl z \<and> y = f z)"
  by (cases x) auto

lemma apfst_OneTask_Inr:
  "apfst (map_sum (\<lambda>e. e) OneTask) p = (Inr (OneTask t), db') \<longleftrightarrow> p = (Inr t, db')"
  by (cases p) (auto simp: map_sum_eq_Inr)

lemma apfst_OneTask_Inl:
  "apfst (map_sum (\<lambda>e. e) OneTask) p = (Inl e, db') \<longleftrightarrow> p = (Inl e, db')"
  by (cases p) (auto simp: map_sum_eq_Inl)

lemmas eval_defs =
  app_def TaskCreate_validate_def TaskUpdate_validate_def get_field_def
  create_task_def read_task_def read_tasks_def update_task_def delete_task_def
  insert_row_def update_row_def delete_row_def refresh_def select_by_id_def Let_def

lemma TaskCreate_validate_cong:
  assumes "get_field kvs ''title'' = get_field kvs' ''title''"
    and "get_field kvs ''completed'' = get_field kvs' ''completed''"
  shows "TaskCreate_validate (JObj kvs) = TaskCreate_validate (JObj kvs')"
  using assms by (simp add: TaskCreate_validate_def split: option.splits)

text \<open>
  Every request keeps the primary key, as long as the id generated for a creation is
  not in the table: the tables reached from the empty one all satisfy \<open>pk_ok\<close>.
\<close>

lemma pk_ok_app:
  assumes "pk_ok db" and "new_id \<notin> ids db"
  shows "pk_ok (snd (app chat new_id req db))"
proof (cases req)
  case (POST_tasks body)
  from assms have "pk_ok (db @ [\<lparr>title = title task, completed = completed task, id_pk = new_id\<rparr>])"
    for task :: TaskCreate
    by (simp add: pk_ok_def ids_def)
  with POST_tasks assms(1) show ?thesis
    by (simp add: app_def snd_create_task split: sum.splits)
next
  case (PUT_task task_id body)
  from assms(1) have "pk_ok (snd (update_task task_id task db))" for task
    using snd_update_task [of task_id task db] by (auto simp: pk_ok_update_row)
  with PUT_task assms(1) show ?thesis
    by (simp add: app_def split: sum.splits)
next
  case (DELETE_task task_id)
  from assms(1) have "pk_ok (snd (delete_task task_id db))"
    using snd_delete_task [of task_id db] by (auto simp: pk_ok_delete_row)
  with DELETE_task show ?thesis by (simp add: app_def)
qed (simp_all add: app_def assms(1))

section \<open>Create, then read\<close>

text \<open>
  C1. Whenever \<^verbatim>\<open>POST /tasks/\<close> answers with a task, a \<^verbatim>\<open>GET /tasks/{id}\<close> for the
  id of that task, sent to the table the creation left, answers 200 with the same task:
  the same id, title and completed. The read may come with any chat client and any
  next generated id, since it uses neither.
\<close>

theorem get_after_create:
  assumes "app chat new_id (POST_tasks body) db = (Inr (OneTask t), db')"
  shows "app chat' new_id' (GET_task (id_pk t)) db' = (Inr (OneTask t), db')
       \<and> status (fst (app chat' new_id' (GET_task (id_pk t)) db')) = 200"
proof -
  from assms obtain task where "TaskCreate_validate body = Inr task"
    and c: "create_task task new_id db = (Inr t, db')"
    by (auto simp: app_def apfst_OneTask_Inr split: sum.splits)
  from c have s: "select_by_id new_id db' = [t]" by (rule create_task_Inr)
  then have "id_pk t = new_id" by (rule select_by_id_id)
  with s have "read_task (id_pk t) db' = Inr t" by (simp add: read_task_single)
  then show ?thesis by (simp add: app_def)
qed

theorem get_after_create_witness:
  "app unreachable 1 (POST_tasks (JObj [(''title'', JStr ''Buy milk'')])) []
     = (Inr (OneTask \<lparr>title = ''Buy milk'', completed = False, id_pk = 1\<rparr>),
        [\<lparr>title = ''Buy milk'', completed = False, id_pk = 1\<rparr>])
   \<and> app unreachable 2 (GET_task 1) [\<lparr>title = ''Buy milk'', completed = False, id_pk = 1\<rparr>]
     = (Inr (OneTask \<lparr>title = ''Buy milk'', completed = False, id_pk = 1\<rparr>),
        [\<lparr>title = ''Buy milk'', completed = False, id_pk = 1\<rparr>])"
proof -
  have h: "app unreachable 1 (POST_tasks (JObj [(''title'', JStr ''Buy milk'')])) []
     = (Inr (OneTask \<lparr>title = ''Buy milk'', completed = False, id_pk = 1\<rparr>),
        [\<lparr>title = ''Buy milk'', completed = False, id_pk = 1\<rparr>])"
    by (simp add: eval_defs)
  from get_after_create [OF h, of unreachable 2] h show ?thesis by simp
qed

section \<open>Titles\<close>

text \<open>
  C2, as stated, fails: both schemas declare \<^verbatim>\<open>title: str\<close> with no lower bound on
  its length, so a body whose title is the empty string passes create-validation and
  update-validation, and \<^verbatim>\<open>POST /tasks/\<close> stores and returns a task with the empty
  title.
\<close>

theorem empty_title_accepted:
  "TaskCreate_validate (JObj [(''title'', JStr [])]) = Inr \<lparr>title = [], completed = False\<rparr>
   \<and> TaskUpdate_validate (JObj [(''title'', JStr []), (''completed'', JBool True)])
       = Inr \<lparr>title = [], completed = True\<rparr>
   \<and> create_task \<lparr>title = [], completed = False\<rparr> 1 []
       = (Inr \<lparr>title = [], completed = False, id_pk = 1\<rparr>,
          [\<lparr>title = [], completed = False, id_pk = 1\<rparr>])"
  by (simp add: eval_defs)

text \<open>
  C2, amended. Every body that create-validation or update-validation accepts is a JSON
  object whose \<^verbatim>\<open>title\<close> field is present and is a JSON string, and the title of the
  validated task is that string unchanged. Whenever \<^verbatim>\<open>POST /tasks/\<close> or
  \<^verbatim>\<open>PUT /tasks/{id}\<close> answers with a task, the title of the returned task is the
  string in the body's \<^verbatim>\<open>title\<close> field, the returned task is a row of the table the
  request left, and a read of its id gives it back: the title stored and returned is a
  string taken unchanged from the body, never null or absent, and it may be empty.
\<close>

theorem accepted_title_is_string:
  "(TaskCreate_validate body = Inr task \<or> TaskUpdate_validate body = Inr task \<longrightarrow>
      (\<exists>kvs. body = JObj kvs \<and> get_field kvs ''title'' = Some (JStr (title task))))
   \<and> (app chat new_id (POST_tasks body) db = (Inr (OneTask t), db')
        \<or> app chat new_id (PUT_task task_id body) db = (Inr (OneTask t), db') \<longrightarrow>
      (\<exists>kvs. body = JObj kvs \<and> get_field kvs ''title'' = Some (JStr (title t)))
      \<and> t \<in> set db'
      \<and> read_task (id_pk t) db' = Inr t)"
proof (intro conjI impI)
  have v: "\<exists>kvs. body = JObj kvs \<and> get_field kvs ''title'' = Some (JStr (title x))"
    if "TaskCreate_validate body = Inr x \<or> TaskUpdate_validate body = Inr x" for x
    using that
    by (auto simp: TaskCreate_validate_def TaskUpdate_validate_def
             split: json.splits option.splits elim: str_validator.elims)
  {
    assume "TaskCreate_validate body = Inr task \<or> TaskUpdate_validate body = Inr task"
    then show "\<exists>kvs. body = JObj kvs \<and> get_field kvs ''title'' = Some (JStr (title task))"
      by (rule v)
  }
  assume "app chat new_id (POST_tasks body) db = (Inr (OneTask t), db')
        \<or> app chat new_id (PUT_task task_id body) db = (Inr (OneTask t), db')"
  then have "\<exists>x i. (TaskCreate_validate body = Inr x \<or> TaskUpdate_validate body = Inr x)
      \<and> title t = title x \<and> select_by_id i db' = [t]"
  proof
    assume "app chat new_id (POST_tasks body) db = (Inr (OneTask t), db')"
    then obtain x where x: "TaskCreate_validate body = Inr x"
      and c: "create_task x new_id db = (Inr t, db')"
      by (auto simp: app_def apfst_OneTask_Inr split: sum.splits)
    from c have "title t = title x" using create_task_result [OF c] by simp
    moreover from c have "select_by_id new_id db' = [t]" by (rule create_task_Inr)
    ultimately show ?thesis using x by blast
  next
    assume "app chat new_id (PUT_task task_id body) db = (Inr (OneTask t), db')"
    then obtain x where x: "TaskUpdate_validate body = Inr x"
      and u: "update_task task_id x db = (Inr t, db')"
      by (auto simp: app_def apfst_OneTask_Inr split: sum.splits)
    from update_task_result [OF u] have "title t = title x"
      and "select_by_id task_id db' = [t]"
      by auto
    with x show ?thesis by blast
  qed
  then obtain x i
    where x: "TaskCreate_validate body = Inr x \<or> TaskUpdate_validate body = Inr x"
      and tx: "title t = title x" and s: "select_by_id i db' = [t]"
    by blast
  from v [OF x] tx
  show "\<exists>kvs. body = JObj kvs \<and> get_field kvs ''title'' = Some (JStr (title t))" by simp
  from s have "t \<in> set (select_by_id i db')" by simp
  then show "t \<in> set db'" by (simp add: select_by_id_def)
  from s have "id_pk t = i" by (rule select_by_id_id)
  with s show "read_task (id_pk t) db' = Inr t" by (simp add: read_task_single)
qed

theorem accepted_title_is_string_witness:
  "TaskCreate_validate (JObj [(''title'', JStr ''Buy milk'')])
     = Inr \<lparr>title = ''Buy milk'', completed = False\<rparr>
   \<and> app unreachable 1 (POST_tasks (JObj [(''title'', JStr ''Buy milk'')])) []
     = (Inr (OneTask \<lparr>title = ''Buy milk'', completed = False, id_pk = 1\<rparr>),
        [\<lparr>title = ''Buy milk'', completed = False, id_pk = 1\<rparr>])
   \<and> (\<exists>kvs. JObj [(''title'', JStr ''Buy milk'')] = JObj kvs
         \<and> get_field kvs ''title''
             = Some (JStr (title \<lparr>title = ''Buy milk'', completed = False, id_pk = 1\<rparr>)))
   \<and> read_task 1 [\<lparr>title = ''Buy milk'', completed = False, id_pk = 1\<rparr>]
     = Inr \<lparr>title = ''Buy milk'', completed = False, id_pk = 1\<rparr>"
proof -
  have h: "TaskCreate_validate (JObj [(''title'', JStr ''Buy milk'')])
     = Inr \<lparr>title = ''Buy milk'', completed = False\<rparr>"
    by (simp add: eval_defs)
  have p: "app unreachable 1 (POST_tasks (JObj [(''title'', JStr ''Buy milk'')])) []
     = (Inr (OneTask \<lparr>title = ''Buy milk'', completed = False, id_pk = 1\<rparr>),
        [\<lparr>title = ''Buy milk'', completed = False, id_pk = 1\<rparr>])"
    by (simp add: eval_defs)
  from accepted_title_is_string
         [of "JObj [(''title'', JStr ''Buy milk'')]"
             "\<lparr>title = ''Buy milk'', completed = False\<rparr>"
             unreachable 1 "[]"
             "\<lparr>title = ''Buy milk'', completed = False, id_pk = 1\<rparr>"
             "[\<lparr>title = ''Buy milk'', completed = False, id_pk = 1\<rparr>]"
             0]
       h p
  show ?thesis by simp
qed

section \<open>Delete\<close>

text \<open>
  C3. In a table that keeps its primary key, for every stored row the deletion of its id
  answers 200 with that row as it stood, leaves no row of that id, and a following read
  of the id answers 404 "Task not found". For every id with no row the deletion answers
  404 "Task not found" and leaves the table as it was.
\<close>

theorem delete_removes_row:
  "(pk_ok db \<and> row \<in> set db \<longrightarrow>
      delete_task (id_pk row) db = (Inr row, delete_row row db)
    \<and> status (fst (delete_task (id_pk row) db)) = 200
    \<and> id_pk row \<notin> ids (snd (delete_task (id_pk row) db))
    \<and> read_task (id_pk row) (snd (delete_task (id_pk row) db))
        = Inl (HTTPException 404 ''Task not found''))
   \<and> (task_id \<notin> ids db \<longrightarrow>
        delete_task task_id db = (Inl (HTTPException 404 ''Task not found''), db))"
proof (intro conjI impI)
  assume a: "pk_ok db \<and> row \<in> set db"
  then show del: "delete_task (id_pk row) db = (Inr row, delete_row row db)"
    by (simp add: delete_task_present)
  from del show "status (fst (delete_task (id_pk row) db)) = 200" by simp
  have gone: "id_pk row \<notin> ids (delete_row row db)" by (simp add: ids_delete_row)
  with del show "id_pk row \<notin> ids (snd (delete_task (id_pk row) db))" by simp
  from gone have "read_task (id_pk row) (delete_row row db)
      = Inl (HTTPException 404 ''Task not found'')"
    by (rule read_task_absent)
  with del show "read_task (id_pk row) (snd (delete_task (id_pk row) db))
      = Inl (HTTPException 404 ''Task not found'')"
    by simp
next
  assume "task_id \<notin> ids db"
  then show "delete_task task_id db = (Inl (HTTPException 404 ''Task not found''), db)"
    by (rule delete_task_absent)
qed

theorem delete_removes_row_witness:
  "delete_task 1 [\<lparr>title = ''A'', completed = False, id_pk = 1\<rparr>,
                  \<lparr>title = ''B'', completed = True, id_pk = 2\<rparr>]
     = (Inr \<lparr>title = ''A'', completed = False, id_pk = 1\<rparr>,
        [\<lparr>title = ''B'', completed = True, id_pk = 2\<rparr>])
   \<and> read_task 1 [\<lparr>title = ''B'', completed = True, id_pk = 2\<rparr>]
     = Inl (HTTPException 404 ''Task not found'')
   \<and> delete_task 3 [\<lparr>title = ''A'', completed = False, id_pk = 1\<rparr>,
                    \<lparr>title = ''B'', completed = True, id_pk = 2\<rparr>]
     = (Inl (HTTPException 404 ''Task not found''),
        [\<lparr>title = ''A'', completed = False, id_pk = 1\<rparr>,
         \<lparr>title = ''B'', completed = True, id_pk = 2\<rparr>])"
  using delete_removes_row
    [of "[\<lparr>title = ''A'', completed = False, id_pk = 1\<rparr>,
          \<lparr>title = ''B'', completed = True, id_pk = 2\<rparr>]"
        "\<lparr>title = ''A'', completed = False, id_pk = 1\<rparr>" 3]
  by (simp add: pk_ok_def ids_def eval_defs)

section \<open>Update\<close>

text \<open>
  C4. In a table that keeps its primary key, for every stored row the update of its id
  with a title and a completed flag answers with the row changed in exactly those two
  fields, its id unchanged; a following read of the id answers with the updated row,
  and the ids of the table stay as they were, in the same order.
\<close>

theorem update_changes_row:
  assumes "pk_ok db" and "row \<in> set db"
  shows "\<exists>row' db'. update_task (id_pk row) task db = (Inr row', db')
           \<and> title row' = title task \<and> completed row' = completed task
           \<and> id_pk row' = id_pk row
           \<and> row' = row\<lparr>title := title task, completed := completed task\<rparr>
           \<and> read_task (id_pk row) db' = Inr row'
           \<and> map id_pk db' = map id_pk db"
proof -
  let ?row' = "row\<lparr>title := title task, completed := completed task\<rparr>"
  from assms have u: "update_task (id_pk row) task db = (Inr ?row', update_row ?row' db)"
    by (rule update_task_present)
  from assms have "select_by_id (id_pk row) db = [row]" by (rule select_by_id_present)
  then have "select_by_id (id_pk row) (update_row ?row' db) = [?row']"
    by (simp add: select_by_id_update_row)
  then have "read_task (id_pk row) (update_row ?row' db) = Inr ?row'"
    by (rule read_task_single)
  with u show ?thesis by (simp add: map_id_pk_update_row)
qed

theorem update_changes_row_witness:
  "pk_ok [\<lparr>title = ''A'', completed = False, id_pk = 1\<rparr>,
          \<lparr>title = ''B'', completed = False, id_pk = 2\<rparr>]
   \<and> update_task 2 \<lparr>title = ''x'', completed = True\<rparr>
        [\<lparr>title = ''A'', completed = False, id_pk = 1\<rparr>,
         \<lparr>title = ''B'', completed = False, id_pk = 2\<rparr>]
     = (Inr \<lparr>title = ''x'', completed = True, id_pk = 2\<rparr>,
        [\<lparr>title = ''A'', completed = False, id_pk = 1\<rparr>,
         \<lparr>title = ''x'', completed = True, id_pk = 2\<rparr>])
   \<and> read_task 2 [\<lparr>title = ''A'', completed = False, id_pk = 1\<rparr>,
                  \<lparr>title = ''x'', completed = True, id_pk = 2\<rparr>]
     = Inr \<lparr>title = ''x'', completed = True, id_pk = 2\<rparr>"
  using update_changes_row
    [of "[\<lparr>title = ''A'', completed = False, id_pk = 1\<rparr>,
          \<lparr>title = ''B'', completed = False, id_pk = 2\<rparr>]"
        "\<lparr>title = ''B'', completed = False, id_pk = 2\<rparr>"
        "\<lparr>title = ''x'', completed = True\<rparr>"]
  by (simp add: pk_ok_def eval_defs)

section \<open>Absent ids\<close>

text \<open>
  C5. For every id with no stored row, \<^verbatim>\<open>GET /tasks/{id}\<close> and
  \<^verbatim>\<open>DELETE /tasks/{id}\<close> answer 404 with the detail "Task not found", and so does the
  update handler for every validated body, hence \<^verbatim>\<open>PUT /tasks/{id}\<close> for every body
  that passes update-validation. The table is left unchanged by the PUT, whatever its
  body, and by the DELETE.
\<close>

theorem absent_id_not_found:
  assumes "task_id \<notin> ids db"
  shows "app chat new_id (GET_task task_id) db = (Inl (HTTPException 404 ''Task not found''), db)
       \<and> app chat new_id (DELETE_task task_id) db = (Inl (HTTPException 404 ''Task not found''), db)
       \<and> update_task task_id task db = (Inl (HTTPException 404 ''Task not found''), db)
       \<and> (TaskUpdate_validate body = Inr task \<longrightarrow>
            app chat new_id (PUT_task task_id body) db
              = (Inl (HTTPException 404 ''Task not found''), db))
       \<and> snd (app chat new_id (PUT_task task_id body) db) = db
       \<and> status (fst (app chat new_id (GET_task task_id) db)) = 404
       \<and> status (fst (app chat new_id (DELETE_task task_id) db)) = 404
       \<and> status (fst (update_task task_id task db)) = 404"
  using assms
  by (simp add: read_task_absent update_task_absent delete_task_absent app_def
           split: sum.splits)

theorem absent_id_not_found_witness:
  "7 \<notin> ids [\<lparr>title = ''A'', completed = False, id_pk = 1\<rparr>]
   \<and> TaskUpdate_validate (JObj [(''title'', JStr ''x''), (''completed'', JBool True)])
       = Inr \<lparr>title = ''x'', completed = True\<rparr>
   \<and> app unreachable 2 (GET_task 7) [\<lparr>title = ''A'', completed = False, id_pk = 1\<rparr>]
       = (Inl (HTTPException 404 ''Task not found''),
          [\<lparr>title = ''A'', completed = False, id_pk = 1\<rparr>])
   \<and> app unreachable 2
         (PUT_task 7 (JObj [(''title'', JStr ''x''), (''completed'', JBool True)]))
         [\<lparr>title = ''A'', completed = False, id_pk = 1\<rparr>]
       = (Inl (HTTPException 404 ''Task not found''),
          [\<lparr>title = ''A'', completed = False, id_pk = 1\<rparr>])
   \<and> app unreachable 2 (DELETE_task 7) [\<lparr>title = ''A'', completed = False, id_pk = 1\<rparr>]
       = (Inl (HTTPException 404 ''Task not found''),
          [\<lparr>title = ''A'', completed = False, id_pk = 1\<rparr>])"
proof -
  have h: "7 \<notin> ids [\<lparr>title = ''A'', completed = False, id_pk = 1\<rparr>]"
    by (simp add: ids_def)
  have v: "TaskUpdate_validate (JObj [(''title'', JStr ''x''), (''completed'', JBool True)])
       = Inr \<lparr>title = ''x'', completed = True\<rparr>"
    by (simp add: TaskUpdate_validate_def get_field_def)
  from absent_id_not_found
         [OF h, of unreachable 2 "\<lparr>title = ''x'', completed = True\<rparr>"
            "JObj [(''title'', JStr ''x''), (''completed'', JBool True)]"]
       h v
  show ?thesis by simp
qed

section \<open>The default of completed\<close>

text \<open>
  C6. Whenever \<^verbatim>\<open>POST /tasks/\<close> answers with a task for a body that has no
  \<^verbatim>\<open>completed\<close> field, that task has completed = false, its title is the string in
  the body's \<^verbatim>\<open>title\<close> field and its id is the one the store generated. In
  particular, when the generated id is not yet in the table, the body
  \<^verbatim>\<open>{"title": "Buy milk"}\<close> is answered with the task of that id, the title
  "Buy milk" and completed = false, appended to the table.
\<close>

theorem create_defaults_completed:
  "(get_field kvs ''completed'' = None \<and>
      app chat new_id (POST_tasks (JObj kvs)) db = (Inr (OneTask t), db')
    \<longrightarrow> completed t = False \<and> id_pk t = new_id
        \<and> get_field kvs ''title'' = Some (JStr (title t)))
   \<and> (new_id \<notin> ids db \<longrightarrow>
        app chat new_id (POST_tasks (JObj [(''title'', JStr ''Buy milk'')])) db
          = (Inr (OneTask \<lparr>title = ''Buy milk'', completed = False, id_pk = new_id\<rparr>),
             db @ [\<lparr>title = ''Buy milk'', completed = False, id_pk = new_id\<rparr>]))"
proof (intro conjI impI)
  assume a: "get_field kvs ''completed'' = None \<and>
      app chat new_id (POST_tasks (JObj kvs)) db = (Inr (OneTask t), db')"
  then obtain task where v: "TaskCreate_validate (JObj kvs) = Inr task"
    and c: "create_task task new_id db = (Inr t, db')"
    by (auto simp: app_def apfst_OneTask_Inr split: sum.splits)
  from c have t: "t = \<lparr>title = title task, completed = completed task, id_pk = new_id\<rparr>"
    by (simp add: create_task_result)
  then show "id_pk t = new_id" by simp
  from a v have "completed task = False"
    by (auto simp: TaskCreate_validate_def split: option.splits)
  with t show "completed t = False" by simp
  from v have "get_field kvs ''title'' = Some (JStr (title task))"
    by (auto simp: TaskCreate_validate_def split: option.splits elim: str_validator.elims)
  with t show "get_field kvs ''title'' = Some (JStr (title t))" by simp
next
  assume "new_id \<notin> ids db"
  then show "app chat new_id (POST_tasks (JObj [(''title'', JStr ''Buy milk'')])) db
          = (Inr (OneTask \<lparr>title = ''Buy milk'', completed = False, id_pk = new_id\<rparr>),
             db @ [\<lparr>title = ''Buy milk'', completed = False, id_pk = new_id\<rparr>])"
    by (simp add: app_def TaskCreate_validate_def get_field_def create_task_ok)
qed

theorem create_defaults_completed_witness:
  "get_field [(''title'', JStr ''Buy milk'')] ''completed'' = None
   \<and> (5::int) \<notin> ids []
   \<and> app unreachable 5 (POST_tasks (JObj [(''title'', JStr ''Buy milk'')])) []
       = (Inr (OneTask \<lparr>title = ''Buy milk'', completed = False, id_pk = 5\<rparr>),
          [\<lparr>title = ''Buy milk'', completed = False, id_pk = 5\<rparr>])
   \<and> completed \<lparr>title = ''Buy milk'', completed = False, id_pk = 5\<rparr> = False"
proof -
  have f: "get_field [(''title'', JStr ''Buy milk'')] ''completed'' = None"
    by (simp add: get_field_def)
  have n: "(5::int) \<notin> ids []" by (simp add: ids_def)
  from create_defaults_completed
         [of "[(''title'', JStr ''Buy milk'')]" unreachable 5 "[]"
             "\<lparr>title = ''Buy milk'', completed = False, id_pk = 5\<rparr>"
             "[\<lparr>title = ''Buy milk'', completed = False, id_pk = 5\<rparr>]"]
       f n
  show ?thesis by simp
qed

section \<open>Listing\<close>

text \<open>
  C7. Starting from the empty table, after N creations with pairwise distinct generated
  ids and the deletion of one of those ids (which answers 200), the listing returns
  exactly N - 1 tasks and none of them has the deleted id. The listing of the empty
  table is the empty sequence, and the listing of any table answers 200.
\<close>

theorem list_after_creates_and_delete:
  "(distinct (map snd reqs) \<and> d \<in> set (map snd reqs) \<longrightarrow>
      status (fst (delete_task d (create_all reqs []))) = 200
    \<and> (\<exists>tasks. read_tasks (snd (delete_task d (create_all reqs []))) = Inr tasks
         \<and> length tasks = length reqs - 1
         \<and> d \<notin> set (map id_pk tasks)))
   \<and> read_tasks [] = Inr []
   \<and> status (read_tasks db) = 200"
proof (intro conjI impI)
  assume a: "distinct (map snd reqs) \<and> d \<in> set (map snd reqs)"
  let ?db = "create_all reqs []"
  have m: "map id_pk ?db = map snd reqs" by (simp add: create_all_eq)
  with a have ok: "pk_ok ?db" by (simp add: pk_ok_def)
  from a m have "d \<in> set (map id_pk ?db)" by simp
  then obtain row where row: "row \<in> set ?db" and d: "d = id_pk row" by auto
  from ok row have del: "delete_task d ?db = (Inr row, delete_row row ?db)"
    unfolding d by (rule delete_task_present)
  then show "status (fst (delete_task d ?db)) = 200" by simp
  have "length ?db = length reqs" using m by (metis length_map)
  with ok row have "length (delete_row row ?db) = length reqs - 1"
    by (simp add: length_delete_row)
  moreover have "d \<notin> set (map id_pk (delete_row row ?db))"
    using ids_delete_row [of row ?db] by (simp add: ids_def d)
  ultimately show "\<exists>tasks. read_tasks (snd (delete_task d ?db)) = Inr tasks
         \<and> length tasks = length reqs - 1 \<and> d \<notin> set (map id_pk tasks)"
    using del by (simp add: read_tasks_def)
qed (simp_all add: read_tasks_def)

theorem list_after_creates_and_delete_witness:
  "distinct (map snd [(\<lparr>title = ''A'', completed = False\<rparr>, 1::int),
                      (\<lparr>title = ''B'', completed = False\<rparr>, 2)])
   \<and> create_all [(\<lparr>title = ''A'', completed = False\<rparr>, 1),
                  (\<lparr>title = ''B'', completed = False\<rparr>, 2)] []
       = [\<lparr>title = ''A'', completed = False, id_pk = 1\<rparr>,
          \<lparr>title = ''B'', completed = False, id_pk = 2\<rparr>]
   \<and> read_tasks (snd (delete_task 1
        (create_all [(\<lparr>title = ''A'', completed = False\<rparr>, 1),
                     (\<lparr>title = ''B'', completed = False\<rparr>, 2)] [])))
       = Inr [\<lparr>title = ''B'', completed = False, id_pk = 2\<rparr>]"
  using list_after_creates_and_delete
    [of "[(\<lparr>title = ''A'', completed = False\<rparr>, 1),
          (\<lparr>title = ''B'', completed = False\<rparr>, 2)]" 1 "[]"]
  by (simp add: eval_defs)

section \<open>Suggestions\<close>

text \<open>
  C8. For every title and every failure of the suggestion call with description
  \<open>e\<close> (the chat call raises, or its reply cannot be subscripted by
  \<^verbatim>\<open>message\<close>, or the message cannot be subscripted by \<^verbatim>\<open>content\<close>),
  \<^verbatim>\<open>POST /suggestions/\<close> answers 500 with the detail "Ollama error: " followed by
  \<open>e\<close>. Whether the call fails or succeeds, the table is left as it was, and the
  route answers with no other error than such a 500.
\<close>

theorem suggestion_failure_is_500:
  "(chat ''gemma3:4b-it-qat'' [[(''role'', ''user''), (''content'', prompt_of t)]] = Inl e
    \<or> (\<exists>response.
          chat ''gemma3:4b-it-qat'' [[(''role'', ''user''), (''content'', prompt_of t)]]
            = Inr response
          \<and> (getitem response ''message'' = Inl e
             \<or> (\<exists>message. getitem response ''message'' = Inr message
                    \<and> getitem message ''content'' = Inl e)))
    \<longrightarrow>
      app chat new_id (POST_suggestions t) db
        = (Inl (HTTPException 500 (''Ollama error: '' @ e)), db)
    \<and> status (fst (app chat new_id (POST_suggestions t) db)) = 500
    \<and> (\<exists>p. detail (projl (fst (app chat new_id (POST_suggestions t) db))) = p @ e))
   \<and> snd (app chat new_id (POST_suggestions t) db) = db
   \<and> (fst (app chat new_id (POST_suggestions t) db) = Inl err \<longrightarrow>
        (\<exists>d. err = HTTPException 500 (''Ollama error: '' @ d)))"
proof (intro conjI impI)
  assume "fst (app chat new_id (POST_suggestions t) db) = Inl err"
  then have "suggest_task_completion chat t = Inl err"
    by (simp add: app_def map_sum_eq_Inl)
  then show "\<exists>d. err = HTTPException 500 (''Ollama error: '' @ d)"
    by (rule suggest_task_completion_error)
next
  assume "chat ''gemma3:4b-it-qat'' [[(''role'', ''user''), (''content'', prompt_of t)]] = Inl e
    \<or> (\<exists>response.
          chat ''gemma3:4b-it-qat'' [[(''role'', ''user''), (''content'', prompt_of t)]]
            = Inr response
          \<and> (getitem response ''message'' = Inl e
             \<or> (\<exists>message. getitem response ''message'' = Inr message
                    \<and> getitem message ''content'' = Inl e)))"
  then have "suggest_task_completion chat t = Inl (HTTPException 500 (''Ollama error: '' @ e))"
    by (auto simp: suggest_task_completion_def)
  then show r: "app chat new_id (POST_suggestions t) db
      = (Inl (HTTPException 500 (''Ollama error: '' @ e)), db)"
    by (simp add: app_def)
  from r show "status (fst (app chat new_id (POST_suggestions t) db)) = 500" by simp
  from r show "\<exists>p. detail (projl (fst (app chat new_id (POST_suggestions t) db))) = p @ e"
    by simp
next
  show "snd (app chat new_id (POST_suggestions t) db) = db" by (simp add: app_def)
qed

theorem suggestion_failure_is_500_witness:
  "app unreachable 3 (POST_suggestions ''Buy milk'')
       [\<lparr>title = ''A'', completed = False, id_pk = 1\<rparr>]
     = (Inl (HTTPException 500 ''Ollama error: Connection refused''),
        [\<lparr>title = ''A'', completed = False, id_pk = 1\<rparr>])
   \<and> app reply_without_content 3 (POST_suggestions ''Buy milk'')
       [\<lparr>title = ''A'', completed = False, id_pk = 1\<rparr>]
     = (Inl (HTTPException 500 (''Ollama error: '' @ quoted ''content'')),
        [\<lparr>title = ''A'', completed = False, id_pk = 1\<rparr>])"
proof -
  have a: "unreachable ''gemma3:4b-it-qat''
             [[(''role'', ''user''), (''content'', prompt_of ''Buy milk'')]]
           = Inl ''Connection refused''"
    by (simp add: unreachable_def)
  have b: "\<exists>response.
          reply_without_content ''gemma3:4b-it-qat''
             [[(''role'', ''user''), (''content'', prompt_of ''Buy milk'')]] = Inr response
          \<and> (getitem response ''message'' = Inl (quoted ''content'')
             \<or> (\<exists>message. getitem response ''message'' = Inr message
                    \<and> getitem message ''content'' = Inl (quoted ''content'')))"
    by (simp add: reply_without_content_def get_field_def)
  from suggestion_failure_is_500
         [of unreachable "''Buy milk''" "''Connection refused''" 3
             "[\<lparr>title = ''A'', completed = False, id_pk = 1\<rparr>]"
             "HTTPException 500 ''Ollama error: Connection refused''"]
       suggestion_failure_is_500
         [of reply_without_content "''Buy milk''" "quoted ''content''" 3
             "[\<lparr>title = ''A'', completed = False, id_pk = 1\<rparr>]"
             "HTTPException 500 (''Ollama error: '' @ quoted ''content'')"]
       a b
  show ?thesis by simp
qed

section \<open>Other rows\<close>

text \<open>
  C9. The update and the deletion of an id leave all rows of any other id as they were,
  in their order: the table restricted to the other ids is the same before and after,
  and so a read of any other id gives the same answer before and after. Either
  operation changes the table only when exactly one row has the given id.
\<close>

theorem other_rows_unchanged:
  "filter (\<lambda>r. id_pk r \<noteq> task_id) (snd (update_task task_id task db))
     = filter (\<lambda>r. id_pk r \<noteq> task_id) db
   \<and> filter (\<lambda>r. id_pk r \<noteq> task_id) (snd (delete_task task_id db))
     = filter (\<lambda>r. id_pk r \<noteq> task_id) db
   \<and> (other \<noteq> task_id \<longrightarrow>
        read_task other (snd (update_task task_id task db)) = read_task other db
      \<and> read_task other (snd (delete_task task_id db)) = read_task other db)
   \<and> (snd (update_task task_id task db) = db \<or> length (select_by_id task_id db) = 1)
   \<and> (snd (delete_task task_id db) = db \<or> length (select_by_id task_id db) = 1)"
proof (intro conjI impI)
  show "snd (update_task task_id task db) = db \<or> length (select_by_id task_id db) = 1"
    by (rule update_task_one_row)
  show "snd (delete_task task_id db) = db \<or> length (select_by_id task_id db) = 1"
    by (rule delete_task_one_row)
next
  show u: "filter (\<lambda>r. id_pk r \<noteq> task_id) (snd (update_task task_id task db))
     = filter (\<lambda>r. id_pk r \<noteq> task_id) db"
    using snd_update_task [of task_id task db] by (auto simp: filter_other_update_row)
  show d: "filter (\<lambda>r. id_pk r \<noteq> task_id) (snd (delete_task task_id db))
     = filter (\<lambda>r. id_pk r \<noteq> task_id) db"
    using snd_delete_task [of task_id db] by (auto simp: filter_other_delete_row)
  assume o: "other \<noteq> task_id"
  have sel: "select_by_id other db' = select_by_id other (filter (\<lambda>r. id_pk r \<noteq> task_id) db')"
    for db' using o by (auto simp: select_by_id_def intro: filter_cong)
  have "select_by_id other (snd (update_task task_id task db)) = select_by_id other db"
    using sel [of "snd (update_task task_id task db)"] sel [of db] u by simp
  then show "read_task other (snd (update_task task_id task db)) = read_task other db"
    by (simp add: read_task_def)
  have "select_by_id other (snd (delete_task task_id db)) = select_by_id other db"
    using sel [of "snd (delete_task task_id db)"] sel [of db] d by simp
  then show "read_task other (snd (delete_task task_id db)) = read_task other db"
    by (simp add: read_task_def)
qed

theorem other_rows_unchanged_witness:
  "(1::int) \<noteq> 2
   \<and> read_task 1 (snd (update_task 2 \<lparr>title = ''x'', completed = True\<rparr>
        [\<lparr>title = ''A'', completed = False, id_pk = 1\<rparr>,
         \<lparr>title = ''B'', completed = False, id_pk = 2\<rparr>]))
     = Inr \<lparr>title = ''A'', completed = False, id_pk = 1\<rparr>
   \<and> read_task 1 (snd (delete_task 2
        [\<lparr>title = ''A'', completed = False, id_pk = 1\<rparr>,
         \<lparr>title = ''B'', completed = False, id_pk = 2\<rparr>]))
     = Inr \<lparr>title = ''A'', completed = False, id_pk = 1\<rparr>"
  using other_rows_unchanged
    [of 2 "\<lparr>title = ''x'', completed = True\<rparr>"
        "[\<lparr>title = ''A'', completed = False, id_pk = 1\<rparr>,
          \<lparr>title = ''B'', completed = False, id_pk = 2\<rparr>]" 1]
  by (simp add: eval_defs)

section \<open>Extra fields\<close>

text \<open>
  C10. The answer of \<^verbatim>\<open>POST /tasks/\<close> and the table it leaves depend on the body only
  through its \<^verbatim>\<open>title\<close> and \<^verbatim>\<open>completed\<close> fields: two objects that agree on
  both give the same result. In particular an added \<^verbatim>\<open>id\<close> field changes nothing,
  and the id of the created task is the one the store generated.
\<close>

theorem extra_fields_ignored:
  "(get_field kvs ''title'' = get_field kvs' ''title''
      \<and> get_field kvs ''completed'' = get_field kvs' ''completed''
    \<longrightarrow> app chat new_id (POST_tasks (JObj kvs)) db = app chat new_id (POST_tasks (JObj kvs')) db)
   \<and> app chat new_id (POST_tasks (JObj (kvs @ [(''id'', v)]))) db
       = app chat new_id (POST_tasks (JObj kvs)) db
   \<and> (app chat new_id (POST_tasks (JObj (kvs @ [(''id'', v)]))) db = (Inr (OneTask t), db')
        \<longrightarrow> id_pk t = new_id)"
proof (intro conjI impI)
  assume "get_field kvs ''title'' = get_field kvs' ''title''
      \<and> get_field kvs ''completed'' = get_field kvs' ''completed''"
  then have "get_field kvs ''title'' = get_field kvs' ''title''"
    and "get_field kvs ''completed'' = get_field kvs' ''completed''"
    by simp_all
  then have "TaskCreate_validate (JObj kvs) = TaskCreate_validate (JObj kvs')"
    by (rule TaskCreate_validate_cong)
  then show "app chat new_id (POST_tasks (JObj kvs)) db
      = app chat new_id (POST_tasks (JObj kvs')) db"
    by (simp add: app_def)
next
  have "TaskCreate_validate (JObj (kvs @ [(''id'', v)])) = TaskCreate_validate (JObj kvs)"
    by (rule TaskCreate_validate_cong) (simp_all add: get_field_def)
  then show "app chat new_id (POST_tasks (JObj (kvs @ [(''id'', v)]))) db
       = app chat new_id (POST_tasks (JObj kvs)) db"
    by (simp add: app_def)
next
  assume "app chat new_id (POST_tasks (JObj (kvs @ [(''id'', v)]))) db = (Inr (OneTask t), db')"
  then obtain task where "create_task task new_id db = (Inr t, db')"
    by (auto simp: app_def apfst_OneTask_Inr split: sum.splits)
  then have "select_by_id new_id db' = [t]" by (rule create_task_Inr)
  then show "id_pk t = new_id" by (rule select_by_id_id)
qed

theorem extra_fields_ignored_witness:
  "app unreachable 1
       (POST_tasks (JObj ([(''title'', JStr ''A''), (''completed'', JBool True)] @ [(''id'', JInt 99)]))) []
     = (Inr (OneTask \<lparr>title = ''A'', completed = True, id_pk = 1\<rparr>),
        [\<lparr>title = ''A'', completed = True, id_pk = 1\<rparr>])
   \<and> get_field [(''title'', JStr ''A''), (''completed'', JBool True)] ''title''
     = get_field [(''priority'', JStr ''high''), (''title'', JStr ''A''), (''completed'', JBool True)] ''title''
   \<and> get_field [(''title'', JStr ''A''), (''completed'', JBool True)] ''completed''
     = get_field [(''priority'', JStr ''high''), (''title'', JStr ''A''), (''completed'', JBool True)] ''completed''
   \<and> app unreachable 1
       (POST_tasks (JObj [(''title'', JStr ''A''), (''completed'', JBool True)])) []
     = app unreachable 1
       (POST_tasks (JObj [(''priority'', JStr ''high''), (''title'', JStr ''A''), (''completed'', JBool True)])) []
   \<and> id_pk \<lparr>title = ''A'', completed = True, id_pk = 1\<rparr> = 1"
proof -
  have h: "app unreachable 1
       (POST_tasks (JObj ([(''title'', JStr ''A''), (''completed'', JBool True)] @ [(''id'', JInt 99)]))) []
     = (Inr (OneTask \<lparr>title = ''A'', completed = True, id_pk = 1\<rparr>),
        [\<lparr>title = ''A'', completed = True, id_pk = 1\<rparr>])"
    by (simp add: eval_defs)
  have g: "get_field [(''title'', JStr ''A''), (''completed'', JBool True)] ''title''
     = get_field [(''priority'', JStr ''high''), (''title'', JStr ''A''), (''completed'', JBool True)] ''title''
   \<and> get_field [(''title'', JStr ''A''), (''completed'', JBool True)] ''completed''
     = get_field [(''priority'', JStr ''high''), (''title'', JStr ''A''), (''completed'', JBool True)] ''completed''"
    by (simp add: get_field_def)
  from extra_fields_ignored
    [of "[(''title'', JStr ''A''), (''completed'', JBool True)]"
        "[(''priority'', JStr ''high''), (''title'', JStr ''A''), (''completed'', JBool True)]"
        unreachable 1 "[]" "JInt 99"
        "\<lparr>title = ''A'', completed = True, id_pk = 1\<rparr>"
        "[\<lparr>title = ''A'', completed = True, id_pk = 1\<rparr>]"]
       h g
  show ?thesis by blast
qed

end
